theory Spec2Isabelle
  imports Complex_Main "HOL-Library.Sublist" "HOL-Library.Log_Nat"
begin

section \<open>Response scoring of the domain analyser (server/services/ai.ts)\<close>

text \<open>
  The three scoring functions of \<^verbatim>\<open>server/services/ai.ts\<close> are
  \<^verbatim>\<open>analyzeKeywordRelevance\<close>, \<^verbatim>\<open>calculatePerformanceScore\<close> and
  \<^verbatim>\<open>calculateSentimentScore\<close>. They work on JavaScript strings and numbers.

  A string is modelled as the list of its code units, each a \<^typ>\<open>char\<close>, so the
  model covers the strings whose code units are below 256 (ASCII and Latin-1);
  \<^verbatim>\<open>text.length\<close> is the length of the list.
\<close>

subsection \<open>String primitives\<close>

text \<open>
  The class \<^verbatim>\<open>\s\<close> of a JavaScript regular expression: among the code units
  below 256 these are TAB, LF, VT, FF, CR, SPACE and the no-break space.
\<close>

definition isSpace :: "char \<Rightarrow> bool" where
  "isSpace c = (of_char c \<in> {9, 10, 11, 12, 13, 32, 160 :: nat})"

text \<open>
  \<^verbatim>\<open>toLowerCase\<close>: below 256 the upper-case letters are A to Z and the Latin-1
  letters 192 to 222 without the multiplication sign 215; each one maps to the
  code unit 32 above it, every other code unit to itself.
\<close>

definition toLowerChar :: "char \<Rightarrow> char" where
  "toLowerChar c =
     (let n = of_char c :: nat
      in if (65 \<le> n \<and> n \<le> 90) \<or> (192 \<le> n \<and> n \<le> 222 \<and> n \<noteq> 215)
         then char_of (n + 32) else c)"

definition toLowerCase :: "string \<Rightarrow> string" where
  "toLowerCase s = map toLowerChar s"

text \<open>
  \<^verbatim>\<open>s.includes(sub)\<close>: \<open>sub\<close> occurs in \<open>s\<close> at some index, scanning from
  index 0. The empty string occurs in every string.
\<close>

fun str_includes :: "string \<Rightarrow> string \<Rightarrow> bool" where
  "str_includes [] sub = (sub = [])"
| "str_includes (c # cs) sub = (prefix sub (c # cs) \<or> str_includes cs sub)"

text \<open>
  \<^verbatim>\<open>s.split(/\s+/)\<close>: the pieces of \<open>s\<close> between maximal runs of whitespace.
  The piece under construction is \<open>cur\<close>; at a whitespace code unit the piece is
  emitted and the whole run is skipped; the end of the string emits the last
  piece. So the empty string yields one empty piece, and a string that starts or
  ends with whitespace yields an empty first or last piece.
\<close>

function splitFrom :: "string \<Rightarrow> string \<Rightarrow> string list" where
  "splitFrom cur [] = [cur]"
| "splitFrom cur (c # cs) =
     (if isSpace c then cur # splitFrom [] (dropWhile isSpace cs)
      else splitFrom (cur @ [c]) cs)"
  by pat_completeness auto
termination
  by (relation "measure (\<lambda>(cur, s). length s)")
     (auto simp: le_imp_less_Suc length_dropWhile_le)

definition split_ws :: "string \<Rightarrow> string list" where
  "split_ws s = splitFrom [] s"

text \<open>\<^verbatim>\<open>s.replace(/\s+/g, '')\<close> deletes every whitespace code unit.\<close>

definition stripSpaces :: "string \<Rightarrow> string" where
  "stripSpaces s = filter (\<lambda>c. \<not> isSpace c) s"

subsection \<open>analyzeKeywordRelevance\<close>

text \<open>
  The condition of the \<^verbatim>\<open>if\<close> inside the \<^verbatim>\<open>forEach\<close>, for one keyword and
  the lower-cased text.
\<close>

definition isRelevant :: "string \<Rightarrow> string \<Rightarrow> bool" where
  "isRelevant textLower keyword =
     (let keywordLower = toLowerCase keyword
      in str_includes textLower keywordLower \<or>
         str_includes textLower (stripSpaces keywordLower) \<or>
         list_ex (\<lambda>word. str_includes word keywordLower \<or> str_includes keywordLower word)
           (split_ws textLower))"

text \<open>
  The loop pushes each keyword that passes the test onto the local array
  \<^verbatim>\<open>relevantKeywords\<close>, which starts empty; the array is the state of the fold.
\<close>

definition analyzeKeywordRelevance :: "string \<Rightarrow> string list \<Rightarrow> string list" where
  "analyzeKeywordRelevance text keywords =
     (let textLower = toLowerCase text
      in fold (\<lambda>keyword relevantKeywords.
                 if isRelevant textLower keyword then relevantKeywords @ [keyword]
                 else relevantKeywords)
           keywords [])"

subsection \<open>Numbers\<close>

text \<open>
  A JavaScript number is an IEEE 754 binary64 value. A finite one is modelled as
  the rational it denotes, and an arithmetic operation as the exact operation
  followed by rounding to the nearest rational with a 53-bit significand, ties
  to the even significand. The exponent is left unbounded: the only quotient
  formed below lies between 0 and 1 and the only product between 0 and 100, far
  from overflow, and a positive quotient of two counts is far above the
  subnormal range for any text that fits a machine.

  \<open>binexp x\<close> is the binary exponent of a positive \<open>x\<close>, the \<open>e\<close> with
  \<open>2\<^sup>e \<le> x < 2\<^sup>e\<^sup>+\<^sup>1\<close>, found from the bit lengths of numerator and
  denominator.
\<close>

definition binexp :: "rat \<Rightarrow> int" where
  "binexp x =
     (let (a, b) = quotient_of x; e0 = bitlen a - bitlen b
      in if 2 powi e0 \<le> x then e0 else e0 - 1)"

definition round_half_even :: "rat \<Rightarrow> int" where
  "round_half_even m =
     (let f = \<lfloor>m\<rfloor>; d = m - of_int f
      in if d < 1 / 2 then f
         else if 1 / 2 < d then f + 1
         else if even f then f else f + 1)"

definition round_binary64 :: "rat \<Rightarrow> rat" where
  "round_binary64 x =
     (if x = 0 then 0
      else let u = 2 powi (binexp \<bar>x\<bar> - 52)
           in sgn x * of_int (round_half_even (\<bar>x\<bar> / u)) * u)"

text \<open>
  A division by zero does not throw in JavaScript; it yields \<^verbatim>\<open>NaN\<close> (for 0/0)
  or an infinity, which then flows through \<^verbatim>\<open>Math.round\<close> to the caller. The
  model makes both an error value.
\<close>

datatype error = NotANumber | NotFinite

definition js_div :: "rat \<Rightarrow> rat \<Rightarrow> error + rat" where
  "js_div a b =
     (if b = 0 then (if a = 0 then Inl NotANumber else Inl NotFinite)
      else Inr (round_binary64 (a / b)))"

definition js_mul :: "rat \<Rightarrow> rat \<Rightarrow> rat" where
  "js_mul a b = round_binary64 (a * b)"

text \<open>
  \<^verbatim>\<open>Math.round\<close>: the nearest integer, and of two equally near ones the
  greater.
\<close>

definition js_round :: "rat \<Rightarrow> int" where
  "js_round x = \<lfloor>x + 1 / 2\<rfloor>"

subsection \<open>calculatePerformanceScore\<close>

definition qualityWords :: "string list" where
  "qualityWords =
     [''strategy'', ''analysis'', ''recommendation'', ''insight'', ''opportunity'',
      ''potential'', ''market'', ''competitive'', ''growth'']"

text \<open>
  The sentiment score and the response time are integers at both call sites (the
  result of \<^verbatim>\<open>calculateSentimentScore\<close> and a difference of two
  \<^verbatim>\<open>Date.now()\<close> readings), so the running score stays an integer and every
  sum is exact. \<^verbatim>\<open>Math.floor(text.length / 100)\<close> is the integer quotient.
  The successive assignments to \<^verbatim>\<open>score\<close> are the successive bindings
  \<open>score0\<close> to \<open>score3\<close>.
\<close>

definition calculatePerformanceScore :: "string \<Rightarrow> int \<Rightarrow> int \<Rightarrow> int" where
  "calculatePerformanceScore text sentimentScore responseTime =
     (let score0 = sentimentScore;
          lengthBonus = min 20 (int (length text) div 100);
          score1 = score0 + lengthBonus;
          score2 = (if responseTime < 3000 then score1 + 10
                    else if responseTime < 5000 then score1 + 5
                    else score1);
          qualityScore =
            int (length (filter (\<lambda>word. str_includes (toLowerCase text) word) qualityWords)) * 2;
          score3 = score2 + qualityScore
      in min 100 (max 0 (js_round (of_int score3))))"

subsection \<open>calculateSentimentScore\<close>

definition positiveWords :: "string list" where
  "positiveWords =
     [''excellent'', ''great'', ''good'', ''positive'', ''strong'', ''potential'',
      ''opportunity'', ''success'', ''effective'', ''valuable'']"

definition negativeWords :: "string list" where
  "negativeWords =
     [''poor'', ''bad'', ''negative'', ''weak'', ''problem'', ''issue'', ''challenge'',
      ''difficulty'', ''risk'', ''concern'']"

text \<open>
  The body of the \<^verbatim>\<open>forEach\<close> over the words: the state is the pair of the two
  counters.
\<close>

fun countWord :: "string \<Rightarrow> nat \<times> nat \<Rightarrow> nat \<times> nat" where
  "countWord word (positiveCount, negativeCount) =
     (if list_ex (\<lambda>pw. str_includes word pw) positiveWords
      then positiveCount + 1 else positiveCount,
      if list_ex (\<lambda>nw. str_includes word nw) negativeWords
      then negativeCount + 1 else negativeCount)"

definition calculateSentimentScore :: "string \<Rightarrow> error + int" where
  "calculateSentimentScore text =
     (let words = split_ws (toLowerCase text);
          (positiveCount, negativeCount) = fold countWord words (0, 0);
          totalSentimentWords = positiveCount + negativeCount
      in if totalSentimentWords = 0 then Inr 75
         else case js_div (of_nat positiveCount) (of_nat totalSentimentWords) of
                Inl e \<Rightarrow> Inl e
              | Inr q \<Rightarrow> Inr (js_round (js_mul q 100)))"

subsection \<open>The variables the functions assign\<close>

text \<open>
  Three of the variables are updated after their declaration: the array
  \<^verbatim>\<open>relevantKeywords\<close> by \<^verbatim>\<open>push\<close>, \<^verbatim>\<open>score\<close> by \<^verbatim>\<open>+=\<close>, and
  the two counters by \<^verbatim>\<open>++\<close>. To follow what one invocation could leave
  behind for the next, they are kept in a store that is handed from call to
  call: a call receives the store as the previous call left it, a declaration
  with its initialiser writes the initial value, every update reads and writes
  the store, and the call returns its result with the store as it leaves it.
\<close>

record store =
  relevantKeywords :: "string list"
  score :: int
  positiveCount :: nat
  negativeCount :: nat

definition analyzeKeywordRelevance_st ::
    "string \<Rightarrow> string list \<Rightarrow> store \<Rightarrow> string list \<times> store" where
  "analyzeKeywordRelevance_st text keywords \<sigma> =
     (let \<sigma>0 = \<sigma>\<lparr>relevantKeywords := []\<rparr>;
          textLower = toLowerCase text;
          \<sigma>1 = fold (\<lambda>keyword s.
                      if isRelevant textLower keyword
                      then s\<lparr>relevantKeywords := relevantKeywords s @ [keyword]\<rparr>
                      else s)
                 keywords \<sigma>0
      in (relevantKeywords \<sigma>1, \<sigma>1))"

definition calculatePerformanceScore_st ::
    "string \<Rightarrow> int \<Rightarrow> int \<Rightarrow> store \<Rightarrow> int \<times> store" where
  "calculatePerformanceScore_st text sentimentScore responseTime \<sigma> =
     (let \<sigma>0 = \<sigma>\<lparr>score := sentimentScore\<rparr>;
          lengthBonus = min 20 (int (length text) div 100);
          \<sigma>1 = \<sigma>0\<lparr>score := score \<sigma>0 + lengthBonus\<rparr>;
          \<sigma>2 = (if responseTime < 3000 then \<sigma>1\<lparr>score := score \<sigma>1 + 10\<rparr>
                else if responseTime < 5000 then \<sigma>1\<lparr>score := score \<sigma>1 + 5\<rparr>
                else \<sigma>1);
          qualityScore =
            int (length (filter (\<lambda>word. str_includes (toLowerCase text) word) qualityWords)) * 2;
          \<sigma>3 = \<sigma>2\<lparr>score := score \<sigma>2 + qualityScore\<rparr>
      in (min 100 (max 0 (js_round (of_int (score \<sigma>3)))), \<sigma>3))"

definition countWord_st :: "string \<Rightarrow> store \<Rightarrow> store" where
  "countWord_st word \<sigma> =
     (let \<sigma>1 = (if list_ex (\<lambda>pw. str_includes word pw) positiveWords
                then \<sigma>\<lparr>positiveCount := positiveCount \<sigma> + 1\<rparr> else \<sigma>)
      in if list_ex (\<lambda>nw. str_includes word nw) negativeWords
         then \<sigma>1\<lparr>negativeCount := negativeCount \<sigma>1 + 1\<rparr> else \<sigma>1)"

definition calculateSentimentScore_st :: "string \<Rightarrow> store \<Rightarrow> (error + int) \<times> store" where
  "calculateSentimentScore_st text \<sigma> =
     (let words = split_ws (toLowerCase text);
          \<sigma>0 = \<sigma>\<lparr>positiveCount := 0, negativeCount := 0\<rparr>;
          \<sigma>1 = fold countWord_st words \<sigma>0;
          totalSentimentWords = positiveCount \<sigma>1 + negativeCount \<sigma>1
      in (if totalSentimentWords = 0 then Inr 75
          else case js_div (of_nat (positiveCount \<sigma>1)) (of_nat totalSentimentWords) of
                 Inl e \<Rightarrow> Inl e
               | Inr q \<Rightarrow> Inr (js_round (js_mul q 100)),
          \<sigma>1))"

subsection \<open>The scoring steps of analyzeWithOpenAI and analyzeWithGemini\<close>

record AIAnalysisResult =
  response :: string
  sentimentScore :: int
  responseTime :: int
  keywordRelevance :: "string list"
  performanceScore :: int

text \<open>
  Both callers, once they hold the response text and the elapsed time, compute
  the sentiment score, the relevant keywords and the performance score in this
  order and return them in one object.
\<close>

definition scoreResponse :: "string \<Rightarrow> string list \<Rightarrow> int \<Rightarrow> error + AIAnalysisResult" where
  "scoreResponse responseContent keywords elapsed =
     (case calculateSentimentScore responseContent of
        Inl e \<Rightarrow> Inl e
      | Inr s \<Rightarrow>
          Inr \<lparr>response = responseContent, sentimentScore = s, responseTime = elapsed,
               keywordRelevance = analyzeKeywordRelevance responseContent keywords,
               performanceScore = calculatePerformanceScore responseContent s elapsed\<rparr>)"

text \<open>The same three steps with the store handed from one call to the next.\<close>

definition scoreResponse_st ::
    "string \<Rightarrow> string list \<Rightarrow> int \<Rightarrow> store \<Rightarrow> (error + AIAnalysisResult) \<times> store" where
  "scoreResponse_st responseContent keywords elapsed \<sigma> =
     (let (sentiment, \<sigma>1) = calculateSentimentScore_st responseContent \<sigma>
      in case sentiment of
           Inl e \<Rightarrow> (Inl e, \<sigma>1)
         | Inr s \<Rightarrow>
             (let (relevant, \<sigma>2) = analyzeKeywordRelevance_st responseContent keywords \<sigma>1;
                  (performance, \<sigma>3) = calculatePerformanceScore_st responseContent s elapsed \<sigma>2
              in (Inr \<lparr>response = responseContent, sentimentScore = s, responseTime = elapsed,
                       keywordRelevance = relevant, performanceScore = performance\<rparr>,
                  \<sigma>3)))"

subsection \<open>The specification's wording\<close>

text \<open>
  The specification speaks of the whitespace-delimited tokens of a text: its
  maximal runs of code units that are not whitespace. \<open>tokensFrom cur s\<close> reads
  \<open>s\<close> with the run \<open>cur\<close> under way; a run ends at a whitespace code unit or
  at the end of the text, and only a run that has a code unit is a token.
\<close>

fun tokensFrom :: "string \<Rightarrow> string \<Rightarrow> string list" where
  "tokensFrom cur [] = (if cur = [] then [] else [cur])"
| "tokensFrom cur (c # cs) =
     (if isSpace c then (if cur = [] then tokensFrom [] cs else cur # tokensFrom [] cs)
      else tokensFrom (cur @ [c]) cs)"

definition spec_tokens :: "string \<Rightarrow> string list" where
  "spec_tokens s = tokensFrom [] s"

text \<open>
  Relevance as the specification words it: the lower-cased text contains the
  lower-cased keyword, or contains it with its whitespace stripped, or some token
  of the text is a substring of the keyword or the keyword of the token.
\<close>

definition spec_relevant :: "string \<Rightarrow> string \<Rightarrow> bool" where
  "spec_relevant text keyword =
     (let t = toLowerCase text; k = toLowerCase keyword
      in sublist k t \<or> sublist (stripSpaces k) t \<or>
         list_ex (\<lambda>token. sublist token k \<or> sublist k token) (spec_tokens t))"

text \<open>
  The sentiment score as the specification words it. The positive count is the
  number of tokens of the lower-cased text that contain a positive marker, the
  negative count the number of those that contain a negative marker. The score
  is 75 when both counts are zero and otherwise
  \<^verbatim>\<open>round(positive / (positive+negative) * 100)\<close>, the quotient and the
  product being those of the rationals and \<open>round\<close> the nearest integer (of
  two equally near ones the greater, as \<^verbatim>\<open>Math.round\<close> has it).
\<close>

definition spec_positive :: "string \<Rightarrow> nat" where
  "spec_positive text =
     length (filter (\<lambda>token. list_ex (\<lambda>m. sublist m token) positiveWords)
               (spec_tokens (toLowerCase text)))"

definition spec_negative :: "string \<Rightarrow> nat" where
  "spec_negative text =
     length (filter (\<lambda>token. list_ex (\<lambda>m. sublist m token) negativeWords)
               (spec_tokens (toLowerCase text)))"

definition spec_sentimentScore :: "string \<Rightarrow> int" where
  "spec_sentimentScore text =
     (let positive = spec_positive text; negative = spec_negative text
      in if positive = 0 \<and> negative = 0 then 75
         else round (rat_of_nat positive / rat_of_nat (positive + negative) * 100))"

section \<open>Properties\<close>

subsection \<open>Strings and the keyword loop\<close>

lemma str_includes_empty: "str_includes s []"
  by (cases s) simp_all

lemma str_includes_sublist: "str_includes s sub \<longleftrightarrow> sublist sub s"
  by (induction s) (simp_all add: sublist_Cons_right)

lemma split_ws_empty: "split_ws [] = [[]]"
  by (simp add: split_ws_def)

lemma toLowerCase_empty: "toLowerCase [] = []"
  by (simp add: toLowerCase_def)

text \<open>The loop with its array is a filter of the keyword sequence.\<close>

lemma fold_push_filter:
  "fold (\<lambda>k acc. if P k then acc @ [k] else acc) ks acc0 = acc0 @ filter P ks"
  by (induction ks arbitrary: acc0) simp_all

lemma analyzeKeywordRelevance_filter:
  "analyzeKeywordRelevance text keywords = filter (isRelevant (toLowerCase text)) keywords"
  by (simp add: analyzeKeywordRelevance_def fold_push_filter)

text \<open>
  An empty piece of the split text is a substring of every keyword, so a text
  with such a piece makes every keyword relevant. The empty text has one.
\<close>

lemma isRelevant_empty_piece:
  assumes "[] \<in> set (split_ws textLower)"
  shows "isRelevant textLower keyword"
proof -
  have "str_includes (toLowerCase keyword) []" by (rule str_includes_empty)
  with assms have "list_ex (\<lambda>word. str_includes word (toLowerCase keyword) \<or>
      str_includes (toLowerCase keyword) word) (split_ws textLower)"
    unfolding list_ex_iff by blast
  then show ?thesis by (simp add: isRelevant_def Let_def)
qed

lemma analyzeKeywordRelevance_empty_text: "analyzeKeywordRelevance [] keywords = keywords"
proof -
  have "isRelevant [] k" for k
    by (rule isRelevant_empty_piece) (simp add: split_ws_empty)
  then show ?thesis
    by (simp add: analyzeKeywordRelevance_filter toLowerCase_empty)
qed

text \<open>
  The tokens of the specification are the non-empty pieces of the split.
\<close>

lemma tokensFrom_dropWhile: "tokensFrom [] (dropWhile isSpace cs) = tokensFrom [] cs"
  by (induction cs) simp_all

lemma tokensFrom_splitFrom: "tokensFrom cur s = filter (\<lambda>w. w \<noteq> []) (splitFrom cur s)"
  by (induction cur s rule: splitFrom.induct) (simp_all add: tokensFrom_dropWhile)

lemma spec_tokens_split_ws: "spec_tokens s = filter (\<lambda>w. w \<noteq> []) (split_ws s)"
  by (simp add: spec_tokens_def split_ws_def tokensFrom_splitFrom)

text \<open>
  The test of the code is the test of the specification, or an empty piece in
  the split text.
\<close>

lemma isRelevant_iff_spec:
  "isRelevant (toLowerCase text) keyword \<longleftrightarrow>
     spec_relevant text keyword \<or> [] \<in> set (split_ws (toLowerCase text))"
proof -
  define t where "t = toLowerCase text"
  define k where "k = toLowerCase keyword"
  define Q where "Q = (\<lambda>w. sublist k w \<or> sublist w k)"
  have "(\<exists>w \<in> set (split_ws t). Q w) \<longleftrightarrow>
        (\<exists>w \<in> set (spec_tokens t). Q w) \<or> [] \<in> set (split_ws t)"
    unfolding spec_tokens_split_ws Q_def by auto
  then show ?thesis
    unfolding isRelevant_def spec_relevant_def Let_def list_ex_iff str_includes_sublist
      t_def [symmetric] k_def [symmetric] Q_def
    by blast
qed

subsection \<open>Rounding to binary64\<close>

lemma bitlen_powi_bounds:
  assumes "0 < a"
  shows "(2::rat) powi (bitlen a - 1) \<le> of_int a" and "of_int a < (2::rat) powi bitlen a"
proof -
  from assms have ge1: "1 \<le> bitlen a"
    using bitlen_eq_zero_iff [of a] bitlen_nonneg [of a] by linarith
  from bitlen_bounds [OF assms]
  have lo: "(2::int) ^ nat (bitlen a - 1) \<le> a" and hi: "a < 2 ^ nat (bitlen a)" by simp_all
  have "(2::rat) powi (bitlen a - 1) = of_int (2 ^ nat (bitlen a - 1))"
    using ge1 by (simp add: power_int_def)
  also have "\<dots> \<le> of_int a" using lo by (simp only: of_int_le_iff)
  finally show "(2::rat) powi (bitlen a - 1) \<le> of_int a" .
  have "(of_int a :: rat) < of_int (2 ^ nat (bitlen a))" using hi by (simp only: of_int_less_iff)
  also have "\<dots> = 2 powi bitlen a" using ge1 by (simp add: power_int_def)
  finally show "of_int a < (2::rat) powi bitlen a" .
qed

text \<open>\<open>binexp\<close> is the binary exponent.\<close>

lemma binexp_bounds:
  assumes "0 < x"
  shows "2 powi binexp x \<le> x" and "x < 2 powi (binexp x + 1)"
proof -
  obtain a b where q: "quotient_of x = (a, b)" by (cases "quotient_of x")
  have b: "0 < b" using quotient_of_denom_pos [OF q] .
  have x: "x = of_int a / of_int b" using quotient_of_div [OF q] .
  have a: "0 < a" using assms b x by (simp add: zero_less_divide_iff)
  define e0 where "e0 = bitlen a - bitlen b"
  have bpos: "(0::rat) < of_int b" using b by simp
  have "x < 2 powi bitlen a / of_int b"
    unfolding x using bitlen_powi_bounds(2) [OF a] bpos by (simp add: divide_strict_right_mono)
  also have "\<dots> \<le> 2 powi bitlen a / 2 powi (bitlen b - 1)"
    using bitlen_powi_bounds(1) [OF b] bpos by (intro divide_left_mono) simp_all
  also have "\<dots> = 2 powi (e0 + 1)"
    by (simp add: e0_def power_int_diff power_int_add)
  finally have up: "x < 2 powi (e0 + 1)" .
  have "(2::rat) powi (e0 - 1) = 2 powi (bitlen a - 1) / 2 powi bitlen b"
    by (simp add: e0_def power_int_diff)
  also have "\<dots> \<le> of_int a / 2 powi bitlen b"
    using bitlen_powi_bounds(1) [OF a] by (intro divide_right_mono) simp_all
  also have "\<dots> \<le> of_int a / of_int b"
    using bitlen_powi_bounds(2) [OF b] a bpos by (intro divide_left_mono) simp_all
  finally have lo: "2 powi (e0 - 1) \<le> x" unfolding x .
  have be: "binexp x = (if 2 powi e0 \<le> x then e0 else e0 - 1)"
    by (simp add: binexp_def q e0_def)
  show "2 powi binexp x \<le> x" using lo by (simp add: be)
  show "x < 2 powi (binexp x + 1)" using up by (auto simp: be not_le)
qed

lemma binexp_less:
  assumes "0 < x" and "x < 2 powi n"
  shows "binexp x < n"
proof -
  have "(2::rat) powi binexp x < 2 powi n"
    using binexp_bounds(1) [OF assms(1)] assms(2) by (rule le_less_trans)
  then show ?thesis
    using power_int_increasing [of n "binexp x" "2::rat"] by (cases "binexp x < n") simp_all
qed

lemma round_half_even_le: "m \<le> of_int k \<Longrightarrow> round_half_even m \<le> k"
  unfolding round_half_even_def Let_def
  by (auto simp: floor_le_iff)

lemma round_half_even_ge:
  assumes "of_int k \<le> m"
  shows "k \<le> round_half_even m"
proof -
  have "k \<le> \<lfloor>m\<rfloor>" using assms by (simp add: le_floor_iff)
  then show ?thesis unfolding round_half_even_def Let_def by auto
qed

lemma round_binary64_nonneg:
  assumes "0 \<le> x"
  shows "0 \<le> round_binary64 x"
proof (cases "x = 0")
  case True
  then show ?thesis by (simp add: round_binary64_def)
next
  case False
  with assms have pos: "0 < x" by simp
  define u where "u = (2::rat) powi (binexp x - 52)"
  have u: "0 < u" by (simp add: u_def)
  have "of_int 0 \<le> x / u" using pos u by simp
  then have "0 \<le> round_half_even (x / u)" by (rule round_half_even_ge)
  then have "0 \<le> of_int (round_half_even (x / u)) * u" using u by simp
  then show ?thesis
    using pos by (simp add: round_binary64_def Let_def u_def [symmetric])
qed

text \<open>
  Rounding never crosses a number that is itself a multiple of the spacing at
  the argument's exponent.
\<close>

lemma round_binary64_le:
  assumes pos: "0 < x" and le: "x \<le> of_int k * 2 powi (binexp x - 52)"
  shows "round_binary64 x \<le> of_int k * 2 powi (binexp x - 52)"
proof -
  define u where "u = (2::rat) powi (binexp x - 52)"
  have u: "0 < u" by (simp add: u_def)
  have "x / u \<le> of_int k" using le u by (simp add: u_def [symmetric] pos_divide_le_eq)
  then have "round_half_even (x / u) \<le> k" by (rule round_half_even_le)
  then have "of_int (round_half_even (x / u)) * u \<le> of_int k * u"
    using u by (simp add: mult_le_cancel_right)
  then show ?thesis
    using pos by (simp add: round_binary64_def Let_def u_def [symmetric])
qed

lemma round_binary64_le_1:
  assumes "0 \<le> x" and "x \<le> 1"
  shows "round_binary64 x \<le> 1"
proof (cases "x = 0")
  case True
  then show ?thesis by (simp add: round_binary64_def)
next
  case False
  with assms have pos: "0 < x" by simp
  have "x < 2 powi 1" using assms(2) by simp
  then have e: "binexp x \<le> 0" using binexp_less [OF pos] by fastforce
  have "(2::rat) powi (52 - binexp x) * 2 powi (binexp x - 52)
        = 2 powi (52 - binexp x + (binexp x - 52))"
    by (rule power_int_add [symmetric]) simp
  then have one: "(1::rat) = of_int (2 ^ nat (52 - binexp x)) * 2 powi (binexp x - 52)"
    using e by (simp add: power_int_nonneg_exp)
  have "x \<le> of_int (2 ^ nat (52 - binexp x)) * 2 powi (binexp x - 52)"
    using assms(2) by (simp only: one [symmetric])
  from round_binary64_le [OF pos this] show ?thesis by (simp only: one [symmetric])
qed

lemma round_binary64_le_100:
  assumes "0 \<le> x" and "x \<le> 100"
  shows "round_binary64 x \<le> 100"
proof (cases "x = 0")
  case True
  then show ?thesis by (simp add: round_binary64_def)
next
  case False
  with assms have pos: "0 < x" by simp
  have "x < 2 powi 7" using assms(2) by simp
  then have e: "binexp x \<le> 6" using binexp_less [OF pos] by fastforce
  have "(2::rat) powi (54 - binexp x) * 2 powi (binexp x - 52)
        = 2 powi (54 - binexp x + (binexp x - 52))"
    by (rule power_int_add [symmetric]) simp
  then have c: "(100::rat) = of_int (25 * 2 ^ nat (54 - binexp x)) * 2 powi (binexp x - 52)"
    using e by (simp add: power_int_nonneg_exp mult.commute)
  have "x \<le> of_int (25 * 2 ^ nat (54 - binexp x)) * 2 powi (binexp x - 52)"
    using assms(2) by (simp only: c [symmetric])
  from round_binary64_le [OF pos this] show ?thesis by (simp only: c [symmetric])
qed

text \<open>
  Two checks of the rounding against known binary64 values: the number nearest
  to one tenth, and the quotient 23/40, whose product with 100 falls just below
  57.5.
\<close>

lemma round_binary64_tenth: "round_binary64 (1 / 10) = 3602879701896397 / 2 ^ 55"
  by code_simp

lemma js_mul_23_of_40:
  "js_mul (round_binary64 (23 / 40)) 100 = 57 + 1 / 2 - 1 / 2 ^ 47"
  by code_simp

lemma js_round_of_int: "js_round (of_int k) = k"
proof -
  have "\<lfloor>(of_int k :: rat) + 1 / 2\<rfloor> = k" by linarith
  then show ?thesis by (simp add: js_round_def)
qed

lemma js_round_range:
  assumes "0 \<le> x" and "x \<le> 100"
  shows "0 \<le> js_round x" and "js_round x \<le> 100"
proof -
  show "0 \<le> js_round x" unfolding js_round_def using assms(1) by linarith
  show "js_round x \<le> 100" unfolding js_round_def using assms(2) by linarith
qed

text \<open>The rounded percentage of a part of a positive total lies in 0 to 100.\<close>

lemma percentage_range:
  fixes p t :: nat
  assumes "p \<le> t" and "0 < t"
  shows "0 \<le> js_round (js_mul (round_binary64 (of_nat p / of_nat t)) 100)"
    and "js_round (js_mul (round_binary64 (of_nat p / of_nat t)) 100) \<le> 100"
proof -
  define q where "q = round_binary64 (of_nat p / of_nat t)"
  have frac: "(0::rat) \<le> of_nat p / of_nat t" "(of_nat p :: rat) / of_nat t \<le> 1"
    using assms by simp_all
  have q: "0 \<le> q" "q \<le> 1"
    unfolding q_def using frac by (simp_all add: round_binary64_nonneg round_binary64_le_1)
  then have prod: "0 \<le> q * 100" "q * 100 \<le> 100" by simp_all
  have r: "0 \<le> js_mul q 100" "js_mul q 100 \<le> 100"
    unfolding js_mul_def using prod by (simp_all add: round_binary64_nonneg round_binary64_le_100)
  show "0 \<le> js_round (js_mul (round_binary64 (of_nat p / of_nat t)) 100)"
    using js_round_range(1) [OF r] by (simp add: q_def)
  show "js_round (js_mul (round_binary64 (of_nat p / of_nat t)) 100) \<le> 100"
    using js_round_range(2) [OF r] by (simp add: q_def)
qed

subsection \<open>The sentiment loop\<close>

text \<open>The two counters end as the numbers of words that pass each test.\<close>

lemma fold_countWord:
  "fold countWord ws (p, n) =
     (p + length (filter (\<lambda>word. list_ex (\<lambda>pw. str_includes word pw) positiveWords) ws),
      n + length (filter (\<lambda>word. list_ex (\<lambda>nw. str_includes word nw) negativeWords) ws))"
  by (induction ws arbitrary: p n) simp_all

text \<open>
  The guard on a zero total keeps the division away from a zero divisor, so the
  error branch of the division is never taken.
\<close>

lemma calculateSentimentScore_counts:
  "calculateSentimentScore text =
     (let ws = split_ws (toLowerCase text);
          p = length (filter (\<lambda>word. list_ex (\<lambda>pw. str_includes word pw) positiveWords) ws);
          n = length (filter (\<lambda>word. list_ex (\<lambda>nw. str_includes word nw) negativeWords) ws)
      in if p + n = 0 then Inr 75
         else Inr (js_round (js_mul (round_binary64 (of_nat p / of_nat (p + n))) 100)))"
  by (simp add: calculateSentimentScore_def fold_countWord js_div_def Let_def
        del: of_nat_add)

lemma sentiment_range:
  "\<exists>s. calculateSentimentScore text = Inr s \<and> 0 \<le> s \<and> s \<le> 100"
proof -
  define ws where "ws = split_ws (toLowerCase text)"
  define p where
    "p = length (filter (\<lambda>word. list_ex (\<lambda>pw. str_includes word pw) positiveWords) ws)"
  define n where
    "n = length (filter (\<lambda>word. list_ex (\<lambda>nw. str_includes word nw) negativeWords) ws)"
  have eq: "calculateSentimentScore text =
      (if p + n = 0 then Inr 75
       else Inr (js_round (js_mul (round_binary64 (of_nat p / of_nat (p + n))) 100)))"
    unfolding calculateSentimentScore_counts Let_def ws_def p_def n_def ..
  show ?thesis
  proof (cases "p + n = 0")
    case True
    then show ?thesis by (simp add: eq)
  next
    case False
    then have "p \<le> p + n" "0 < p + n" by simp_all
    from percentage_range [OF this] False show ?thesis
      by (simp add: eq del: of_nat_add)
  qed
qed

text \<open>The counts of the loop are the counts of the specification.\<close>

lemma spec_positive_split:
  "spec_positive text =
     length (filter (\<lambda>word. list_ex (\<lambda>pw. str_includes word pw) positiveWords)
               (split_ws (toLowerCase text)))"
proof -
  have "filter (\<lambda>token. list_ex (\<lambda>m. sublist m token) positiveWords)
          (spec_tokens (toLowerCase text))
        = filter (\<lambda>word. list_ex (\<lambda>pw. str_includes word pw) positiveWords)
            (split_ws (toLowerCase text))"
    unfolding spec_tokens_split_ws str_includes_sublist filter_filter
    by (rule filter_cong) (auto simp: positiveWords_def)
  then show ?thesis by (simp add: spec_positive_def)
qed

lemma spec_negative_split:
  "spec_negative text =
     length (filter (\<lambda>word. list_ex (\<lambda>nw. str_includes word nw) negativeWords)
               (split_ws (toLowerCase text)))"
proof -
  have "filter (\<lambda>token. list_ex (\<lambda>m. sublist m token) negativeWords)
          (spec_tokens (toLowerCase text))
        = filter (\<lambda>word. list_ex (\<lambda>nw. str_includes word nw) negativeWords)
            (split_ws (toLowerCase text))"
    unfolding spec_tokens_split_ws str_includes_sublist filter_filter
    by (rule filter_cong) (auto simp: negativeWords_def)
  then show ?thesis by (simp add: spec_negative_def)
qed

lemma calculateSentimentScore_spec_counts:
  "calculateSentimentScore text =
     Inr (if spec_positive text = 0 \<and> spec_negative text = 0 then 75
          else js_round (round_binary64
                 (round_binary64
                    (rat_of_nat (spec_positive text)
                      / rat_of_nat (spec_positive text + spec_negative text)) * 100)))"
  unfolding calculateSentimentScore_counts spec_positive_split spec_negative_split Let_def
    js_mul_def
  by simp

lemma round_half_even_error: "\<bar>rat_of_int (round_half_even m) - m\<bar> \<le> 1 / 2"
proof -
  have "rat_of_int \<lfloor>m\<rfloor> \<le> m" "m < rat_of_int \<lfloor>m\<rfloor> + 1" by linarith+
  then show ?thesis unfolding round_half_even_def Let_def by (auto simp: abs_le_iff)
qed

lemma round_binary64_error:
  assumes "0 < x"
  shows "\<bar>round_binary64 x - x\<bar> \<le> 2 powi (binexp x - 53)"
proof -
  define u where "u = (2::rat) powi (binexp x - 52)"
  define a where "a = rat_of_int (round_half_even (x / u))"
  have u: "0 < u" by (simp add: u_def)
  have "(a - x / u) * u = a * u - x" using u by (simp add: left_diff_distrib)
  then have "\<bar>a * u - x\<bar> = \<bar>a - x / u\<bar> * \<bar>u\<bar>" by (simp only: abs_mult [symmetric])
  also have "\<dots> = \<bar>a - x / u\<bar> * u" using u by simp
  also have "\<dots> \<le> 1 / 2 * u"
    using round_half_even_error [of "x / u"] u by (simp add: a_def mult_le_cancel_right)
  also have "1 / 2 * u = 2 powi (binexp x - 53)"
    using power_int_add [of "2::rat" "binexp x - 53" 1] by (simp add: u_def)
  finally show ?thesis
    using assms by (simp add: round_binary64_def Let_def u_def [symmetric] a_def)
qed

lemma round_binary64_error_le:
  assumes "0 \<le> x" and "x < 2 powi n"
  shows "\<bar>round_binary64 x - x\<bar> \<le> 2 powi (n - 54)"
proof (cases "x = 0")
  case True
  then show ?thesis by (simp add: round_binary64_def)
next
  case False
  with assms have pos: "0 < x" by simp
  have "binexp x - 53 \<le> n - 54" using binexp_less [OF pos assms(2)] by simp
  then have "(2::rat) powi (binexp x - 53) \<le> 2 powi (n - 54)"
    by (intro power_int_increasing) simp_all
  with round_binary64_error [OF pos] show ?thesis by linarith
qed

text \<open>
  The two roundings move the percentage by less than one, so the score is
  within one of the exactly rounded percentage.
\<close>

lemma percentage_error:
  fixes p t :: nat
  assumes "p \<le> t" and "0 < t"
  shows "\<bar>js_mul (round_binary64 (of_nat p / of_nat t)) 100 - of_nat p / of_nat t * 100\<bar> < 1"
proof -
  define x :: rat where "x = of_nat p / of_nat t"
  define q where "q = round_binary64 x"
  define y where "y = q * 100"
  have x: "0 \<le> x" "x \<le> 1" using assms by (simp_all add: x_def)
  then have "x < 2 powi 1" by simp
  from round_binary64_error_le [OF x(1) this]
  have eq: "\<bar>q - x\<bar> \<le> 1 / 2 ^ 53" by (simp add: q_def power_int_minus_divide)
  have q: "0 \<le> q" "q \<le> 1"
    unfolding q_def using x by (simp_all add: round_binary64_nonneg round_binary64_le_1)
  then have y: "0 \<le> y" "y < 2 powi 7" by (simp_all add: y_def)
  from round_binary64_error_le [OF this]
  have ey: "\<bar>round_binary64 y - y\<bar> \<le> 1 / 2 ^ 47" by (simp add: power_int_minus_divide)
  have d: "y - x * 100 = (q - x) * 100" by (simp add: y_def left_diff_distrib)
  have "\<bar>y - x * 100\<bar> = \<bar>(q - x) * 100\<bar>" by (simp only: d)
  also have "\<dots> = \<bar>q - x\<bar> * \<bar>100\<bar>" by (rule abs_mult)
  finally have "\<bar>y - x * 100\<bar> = 100 * \<bar>q - x\<bar>" by simp
  moreover have "\<bar>round_binary64 y - x * 100\<bar> \<le> \<bar>round_binary64 y - y\<bar> + \<bar>y - x * 100\<bar>"
    by linarith
  ultimately have "\<bar>round_binary64 y - x * 100\<bar> \<le> \<bar>round_binary64 y - y\<bar> + 100 * \<bar>q - x\<bar>"
    by simp
  also have "\<dots> \<le> 1 / 2 ^ 47 + 100 * (1 / 2 ^ 53)"
    using eq ey by (intro add_mono mult_left_mono) simp_all
  also have "\<dots> < 1" by simp
  finally show ?thesis by (simp add: js_mul_def q_def y_def x_def)
qed

lemma round_near:
  fixes a b :: rat
  assumes "\<bar>a - b\<bar> < 1"
  shows "\<bar>js_round a - round b\<bar> \<le> 1"
  unfolding js_round_def round_def using assms by linarith

lemma sentiment_within_one:
  "\<exists>s. calculateSentimentScore text = Inr s \<and> \<bar>s - spec_sentimentScore text\<bar> \<le> 1"
proof -
  define p where "p = spec_positive text"
  define n where "n = spec_negative text"
  show ?thesis
  proof (cases "p = 0 \<and> n = 0")
    case True
    then show ?thesis
      by (simp add: calculateSentimentScore_spec_counts spec_sentimentScore_def p_def n_def)
  next
    case False
    then have "p \<le> p + n" "0 < p + n" by auto
    from round_near [OF percentage_error [OF this]] False show ?thesis
      by (simp add: calculateSentimentScore_spec_counts spec_sentimentScore_def Let_def
            p_def n_def js_mul_def del: of_nat_add)
  qed
qed

subsection \<open>The performance score\<close>

lemma distinct_qualityWords: "distinct qualityWords"
  by (simp add: qualityWords_def)

lemma performance_range:
  "0 \<le> calculatePerformanceScore text s rt" "calculatePerformanceScore text s rt \<le> 100"
  by (simp_all add: calculatePerformanceScore_def Let_def)

subsection \<open>The store\<close>

text \<open>
  Each function with the store returns what the function without it returns,
  whatever the store holds at the call.
\<close>

lemma fold_push_store:
  "relevantKeywords
     (fold (\<lambda>k s. if P k then s\<lparr>relevantKeywords := relevantKeywords s @ [k]\<rparr> else s) ks st)
   = relevantKeywords st @ filter P ks"
  by (induction ks arbitrary: st) simp_all

lemma analyzeKeywordRelevance_st_result:
  "fst (analyzeKeywordRelevance_st text keywords st) = analyzeKeywordRelevance text keywords"
  by (simp add: analyzeKeywordRelevance_st_def analyzeKeywordRelevance_filter Let_def
        fold_push_store)

lemma calculatePerformanceScore_st_result:
  "fst (calculatePerformanceScore_st text s rt st) = calculatePerformanceScore text s rt"
  by (simp add: calculatePerformanceScore_st_def calculatePerformanceScore_def Let_def)

lemma fold_countWord_st:
  "(positiveCount (fold countWord_st ws st), negativeCount (fold countWord_st ws st))
   = fold countWord ws (positiveCount st, negativeCount st)"
  by (induction ws arbitrary: st) (simp_all add: countWord_st_def Let_def)

lemma calculateSentimentScore_st_result:
  "fst (calculateSentimentScore_st text st) = calculateSentimentScore text"
proof -
  define st1 where
    "st1 = fold countWord_st (split_ws (toLowerCase text)) (st\<lparr>positiveCount := 0, negativeCount := 0\<rparr>)"
  have "fold countWord (split_ws (toLowerCase text)) (0, 0) = (positiveCount st1, negativeCount st1)"
    using fold_countWord_st [of "split_ws (toLowerCase text)" "st\<lparr>positiveCount := 0, negativeCount := 0\<rparr>"]
    by (simp add: st1_def)
  then show ?thesis
    by (simp add: calculateSentimentScore_st_def calculateSentimentScore_def Let_def
          st1_def [symmetric])
qed

lemma scoreResponse_st_result:
  "fst (scoreResponse_st text keywords elapsed st) = scoreResponse text keywords elapsed"
proof -
  obtain r st1 where c: "calculateSentimentScore_st text st = (r, st1)"
    by (cases "calculateSentimentScore_st text st")
  then have r: "calculateSentimentScore text = r"
    using calculateSentimentScore_st_result [of "text" st] by simp
  show ?thesis
  proof (cases r)
    case (Inl e)
    then show ?thesis by (simp add: scoreResponse_st_def scoreResponse_def c r)
  next
    case (Inr s)
    obtain k st2 where a: "analyzeKeywordRelevance_st text keywords st1 = (k, st2)"
      by (cases "analyzeKeywordRelevance_st text keywords st1")
    obtain p st3 where b: "calculatePerformanceScore_st text s elapsed st2 = (p, st3)"
      by (cases "calculatePerformanceScore_st text s elapsed st2")
    have "k = analyzeKeywordRelevance text keywords"
      using analyzeKeywordRelevance_st_result [of "text" "keywords" st1] a by simp
    moreover have "p = calculatePerformanceScore text s elapsed"
      using calculatePerformanceScore_st_result [of "text" s elapsed st2] b by simp
    ultimately show ?thesis
      by (simp add: scoreResponse_st_def scoreResponse_def c r Inr a b)
  qed
qed

section \<open>The claims\<close>

text \<open>
  C1. Claimed: for every keyword list, the empty text gets the sentiment score 75
  and an empty list of relevant keywords. On the code the score is 75, but the
  split of the empty text is one empty piece, which is a substring of every
  keyword, so every keyword list comes back whole, here the two keywords
  "growth" and "market share".
\<close>

theorem C1_empty_text:
  "calculateSentimentScore '''' = Inr 75 \<and>
   analyzeKeywordRelevance '''' keywords = keywords \<and>
   analyzeKeywordRelevance '''' [''growth'', ''market share''] = [''growth'', ''market share'']"
proof (intro conjI)
  show "calculateSentimentScore '''' = Inr 75" by code_simp
  show "analyzeKeywordRelevance '''' keywords = keywords"
    by (rule analyzeKeywordRelevance_empty_text)
  show "analyzeKeywordRelevance '''' [''growth'', ''market share'']
        = [''growth'', ''market share'']"
    by (rule analyzeKeywordRelevance_empty_text)
qed

text \<open>
  C2, as amended. The content-quality bonus is 2 for each word of the
  quality-indicator list that occurs in the lower-cased text at least once,
  however often it occurs: the performance score is the sentiment score plus
  the length bonus, the speed bonus and twice the number of list words that
  occur, clamped to 0 to 100. For the text "analysis analysis analysis" with
  sentiment score 75 and 2000 ms it is 75 + 0 + 10 + 2 = 87.
\<close>

theorem C2_quality_bonus:
  "calculatePerformanceScore text s rt =
     min 100 (max 0 (s + min 20 (int (length text) div 100)
       + (if rt < 3000 then 10 else if rt < 5000 then 5 else 0)
       + 2 * int (card {w \<in> set qualityWords. sublist w (toLowerCase text)})))
   \<and> calculatePerformanceScore ''analysis analysis analysis'' 75 2000 = 87"
proof
  have "length (filter (\<lambda>word. str_includes (toLowerCase text) word) qualityWords)
        = card {w \<in> set qualityWords. sublist w (toLowerCase text)}"
    using distinct_length_filter [OF distinct_qualityWords, of "\<lambda>w. sublist w (toLowerCase text)"]
    by (simp add: str_includes_sublist Int_def conj_commute)
  then show "calculatePerformanceScore text s rt =
     min 100 (max 0 (s + min 20 (int (length text) div 100)
       + (if rt < 3000 then 10 else if rt < 5000 then 5 else 0)
       + 2 * int (card {w \<in> set qualityWords. sublist w (toLowerCase text)})))"
    by (simp add: calculatePerformanceScore_def Let_def js_round_of_int mult.commute)
  show "calculatePerformanceScore ''analysis analysis analysis'' 75 2000 = 87"
    by code_simp
qed

text \<open>
  C2 as claimed, with 2 for each of the three occurrences and a score of 91,
  fails on the claim's own input.
\<close>

theorem C2_counterexample:
  "calculatePerformanceScore ''analysis analysis analysis'' 75 2000 \<noteq> 91"
  by code_simp

text \<open>
  C3, as amended. For every text and keyword sequence the relevant keywords are
  among the supplied ones and in their order (a subsequence of the input), and
  they are free of duplicates whenever the supplied sequence is.
\<close>

theorem C3_subsequence:
  "set (analyzeKeywordRelevance text keywords) \<subseteq> set keywords \<and>
   subseq (analyzeKeywordRelevance text keywords) keywords \<and>
   (distinct keywords \<longrightarrow> distinct (analyzeKeywordRelevance text keywords))"
  by (simp add: analyzeKeywordRelevance_filter)

theorem C3_subsequence_witness:
  "distinct [''growth'', ''pricing'', ''market''] \<and>
   set (analyzeKeywordRelevance ''Market growth'' [''growth'', ''pricing'', ''market''])
     \<subseteq> set [''growth'', ''pricing'', ''market''] \<and>
   subseq (analyzeKeywordRelevance ''Market growth'' [''growth'', ''pricing'', ''market''])
     [''growth'', ''pricing'', ''market''] \<and>
   distinct (analyzeKeywordRelevance ''Market growth'' [''growth'', ''pricing'', ''market''])"
proof -
  have d: "distinct [''growth'', ''pricing'', ''market'']" by simp
  note c = C3_subsequence [of "''Market growth''" "[''growth'', ''pricing'', ''market'']"]
  from c have 1:
    "set (analyzeKeywordRelevance ''Market growth'' [''growth'', ''pricing'', ''market''])
       \<subseteq> set [''growth'', ''pricing'', ''market'']"
    by (rule conjunct1)
  from c have 2:
    "subseq (analyzeKeywordRelevance ''Market growth'' [''growth'', ''pricing'', ''market''])
       [''growth'', ''pricing'', ''market'']"
    by (rule conjunct1 [OF conjunct2])
  from c have "distinct [''growth'', ''pricing'', ''market''] \<longrightarrow>
     distinct (analyzeKeywordRelevance ''Market growth'' [''growth'', ''pricing'', ''market''])"
    by (rule conjunct2 [OF conjunct2])
  then have 3:
    "distinct (analyzeKeywordRelevance ''Market growth'' [''growth'', ''pricing'', ''market''])"
    using d by (rule mp)
  show ?thesis by (rule conjI [OF d conjI [OF 1 conjI [OF 2 3]]])
qed

text \<open>
  C3 as claimed, with no duplicates for every keyword sequence, fails when the
  sequence repeats a relevant keyword: the loop pushes it each time.
\<close>

theorem C3_counterexample:
  "\<not> distinct (analyzeKeywordRelevance ''growth'' [''growth'', ''growth''])"
  by code_simp

text \<open>
  C4. For every text and every response time, zero and negative ones included,
  the sentiment score is an integer from 0 to 100 and so is the performance
  score, for each function alone (the performance score for any integer passed
  as sentiment) and for the result object the callers build.
\<close>

theorem C4_scores_in_range:
  "(\<exists>s. calculateSentimentScore text = Inr s \<and> 0 \<le> s \<and> s \<le> 100) \<and>
   0 \<le> calculatePerformanceScore text sentiment elapsed \<and>
   calculatePerformanceScore text sentiment elapsed \<le> 100 \<and>
   (\<exists>r. scoreResponse text keywords elapsed = Inr r \<and>
        0 \<le> sentimentScore r \<and> sentimentScore r \<le> 100 \<and>
        0 \<le> performanceScore r \<and> performanceScore r \<le> 100)"
proof -
  obtain s where s: "calculateSentimentScore text = Inr s" "0 \<le> s" "s \<le> 100"
    using sentiment_range by blast
  then show ?thesis
    by (simp add: scoreResponse_def performance_range)
qed

text \<open>
  C5, as amended. The sentiment scorer tokenizes the lower-cased text on
  whitespace, counts a token as positive if it contains a positive marker and as
  negative if it contains a negative marker (a token may count for both:
  "goodbad" scores 50), returns 75 when both counts are zero, and otherwise
  returns \<^verbatim>\<open>Math.round\<close> of the binary64 product of the binary64 quotient
  positive / (positive + negative) with 100: the quotient is rounded to the
  nearest binary64 number, then the product is, then the result to an integer.
  The score is within one of the exactly rounded percentage. The text
  "excellent great strong" scores 100 and "poor bad weak" scores 0; the markers
  are found in upper-case text, and three tokens of which two are positive and
  one negative score 67.
\<close>

theorem C5_sentiment_binary64:
  "calculateSentimentScore text =
     Inr (if spec_positive text = 0 \<and> spec_negative text = 0 then 75
          else js_round (round_binary64
                 (round_binary64
                    (rat_of_nat (spec_positive text)
                      / rat_of_nat (spec_positive text + spec_negative text)) * 100))) \<and>
   (\<exists>s. calculateSentimentScore text = Inr s \<and> \<bar>s - spec_sentimentScore text\<bar> \<le> 1) \<and>
   calculateSentimentScore ''excellent great strong'' = Inr 100 \<and>
   calculateSentimentScore ''poor bad weak'' = Inr 0 \<and>
   calculateSentimentScore ''goodbad'' = Inr 50 \<and>
   calculateSentimentScore ''EXCELLENT results, Great team'' = Inr 100 \<and>
   calculateSentimentScore ''good good bad'' = Inr 67"
proof (intro conjI)
  show "calculateSentimentScore text =
     Inr (if spec_positive text = 0 \<and> spec_negative text = 0 then 75
          else js_round (round_binary64
                 (round_binary64
                    (rat_of_nat (spec_positive text)
                      / rat_of_nat (spec_positive text + spec_negative text)) * 100)))"
    by (rule calculateSentimentScore_spec_counts)
  show "\<exists>s. calculateSentimentScore text = Inr s \<and> \<bar>s - spec_sentimentScore text\<bar> \<le> 1"
    by (rule sentiment_within_one)
  show "calculateSentimentScore ''excellent great strong'' = Inr 100" by code_simp
  show "calculateSentimentScore ''poor bad weak'' = Inr 0" by code_simp
  show "calculateSentimentScore ''goodbad'' = Inr 50" by code_simp
  show "calculateSentimentScore ''EXCELLENT results, Great team'' = Inr 100" by code_simp
  show "calculateSentimentScore ''good good bad'' = Inr 67" by code_simp
qed

text \<open>
  C5 as claimed, with the score \<^verbatim>\<open>round(positive / (positive+negative) * 100)\<close>
  of the exact quotient and product, fails for a text of 23 tokens "good" and 17
  tokens "bad": the exact percentage is 57.5, which rounds to 58, but the
  binary64 product lies below 57.5 (by 1/2^47) and the code returns 57.
\<close>

theorem C5_counterexample:
  "spec_sentimentScore
     (concat (replicate 23 ''good '') @ concat (replicate 16 ''bad '') @ ''bad'') = 58 \<and>
   calculateSentimentScore
     (concat (replicate 23 ''good '') @ concat (replicate 16 ''bad '') @ ''bad'') = Inr 57 \<and>
   calculateSentimentScore
     (concat (replicate 23 ''good '') @ concat (replicate 16 ''bad '') @ ''bad'')
   \<noteq> Inr (spec_sentimentScore
       (concat (replicate 23 ''good '') @ concat (replicate 16 ''bad '') @ ''bad''))"
  by code_simp

text \<open>
  C6. Claimed: a keyword is relevant exactly when the lower-cased text contains
  it, or contains it with its whitespace stripped, or some whitespace-delimited
  token of the text is a substring of the keyword or the keyword of the token.
  The keyword "market share" is relevant to "marketshare is increasing", as
  claimed. But the code runs the third test over the pieces of the split, and a
  text that ends with whitespace has an empty last piece: for the text
  "strong growth " the code finds the keyword "pricing" relevant, though none of
  the three tests of the claim holds. An empty piece is the only difference:
  for every text and keyword the code's test holds exactly when the claim's
  tests hold or the split text has an empty piece.
\<close>

theorem C6_empty_piece:
  "(isRelevant (toLowerCase text) keyword \<longleftrightarrow>
      spec_relevant text keyword \<or> [] \<in> set (split_ws (toLowerCase text))) \<and>
   isRelevant (toLowerCase ''strong growth '') ''pricing'' \<and>
   analyzeKeywordRelevance ''strong growth '' [''pricing''] = [''pricing''] \<and>
   \<not> spec_relevant ''strong growth '' ''pricing'' \<and>
   spec_relevant ''marketshare is increasing'' ''market share'' \<and>
   analyzeKeywordRelevance ''marketshare is increasing'' [''market share''] = [''market share'']"
proof (intro conjI)
  show "isRelevant (toLowerCase text) keyword \<longleftrightarrow>
      spec_relevant text keyword \<or> [] \<in> set (split_ws (toLowerCase text))"
    by (rule isRelevant_iff_spec)
  show "isRelevant (toLowerCase ''strong growth '') ''pricing''" by code_simp
  show "analyzeKeywordRelevance ''strong growth '' [''pricing''] = [''pricing'']" by code_simp
  show "\<not> spec_relevant ''strong growth '' ''pricing''" by code_simp
  show "spec_relevant ''marketshare is increasing'' ''market share''" by code_simp
  show "analyzeKeywordRelevance ''marketshare is increasing'' [''market share'']
        = [''market share'']"
    by code_simp
qed

text \<open>
  C7. The scoring is total and has no error path: for every text, keyword list
  and response time the sentiment scorer returns a score and the callers' three
  steps return a result object; the division inside the sentiment scorer, the
  one operation that could yield a non-number, never meets a zero divisor. The
  other two functions have no fallible operation, and the split loop terminates.
  The empty text with no keywords and a negative response time gets the default
  sentiment 75 and the performance score 85.
\<close>

theorem C7_total:
  "(\<exists>s. calculateSentimentScore text = Inr s) \<and>
   (\<exists>r. scoreResponse text keywords elapsed = Inr r) \<and>
   scoreResponse '''' [] (- 1) =
     Inr \<lparr>response = '''', sentimentScore = 75, responseTime = - 1,
          keywordRelevance = [], performanceScore = 85\<rparr>"
proof (intro conjI)
  obtain s where s: "calculateSentimentScore text = Inr s"
    using sentiment_range by blast
  then show "\<exists>s. calculateSentimentScore text = Inr s" ..
  show "\<exists>r. scoreResponse text keywords elapsed = Inr r"
    by (simp add: scoreResponse_def s)
  show "scoreResponse '''' [] (- 1) =
     Inr \<lparr>response = '''', sentimentScore = 75, responseTime = - 1,
          keywordRelevance = [], performanceScore = 85\<rparr>"
    by code_simp
qed

text \<open>
  C8. The scoring is deterministic: two invocations with identical text, keyword
  sequence and elapsed time return identical sentiment score, relevant keywords
  and performance score, whatever each finds in the store when it begins, and
  so also when the second begins with the store as the first leaves it. No
  value of the array, of the running score or of the counters survives into a
  result: each is written by its declaration before it is read. A store with a
  stale keyword, score and counts gives the result of a fresh one.
\<close>

theorem C8_deterministic:
  "fst (scoreResponse_st text keywords elapsed st1)
     = fst (scoreResponse_st text keywords elapsed st2) \<and>
   fst (scoreResponse_st text keywords elapsed
          (snd (scoreResponse_st text keywords elapsed st1)))
     = fst (scoreResponse_st text keywords elapsed st1) \<and>
   fst (scoreResponse_st ''Strong growth, weak margins'' [''growth'', ''pricing''] 2500
          \<lparr>relevantKeywords = [''stale''], score = 999, positiveCount = 7, negativeCount = 3\<rparr>)
     = Inr \<lparr>response = ''Strong growth, weak margins'', sentimentScore = 50,
            responseTime = 2500, keywordRelevance = [''growth''], performanceScore = 62\<rparr>"
proof (intro conjI)
  show "fst (scoreResponse_st text keywords elapsed st1)
     = fst (scoreResponse_st text keywords elapsed st2)"
    by (simp only: scoreResponse_st_result)
  show "fst (scoreResponse_st text keywords elapsed
          (snd (scoreResponse_st text keywords elapsed st1)))
     = fst (scoreResponse_st text keywords elapsed st1)"
    by (simp only: scoreResponse_st_result)
  show "fst (scoreResponse_st ''Strong growth, weak margins'' [''growth'', ''pricing''] 2500
          \<lparr>relevantKeywords = [''stale''], score = 999, positiveCount = 7, negativeCount = 3\<rparr>)
     = Inr \<lparr>response = ''Strong growth, weak margins'', sentimentScore = 50,
            responseTime = 2500, keywordRelevance = [''growth''], performanceScore = 62\<rparr>"
    by code_simp
qed

text \<open>
  C9. For every text, a keyword list that contains the empty string gets the
  empty string back among the relevant keywords: every text contains it.
\<close>

theorem C9_empty_keyword:
  "[] \<in> set keywords \<Longrightarrow> [] \<in> set (analyzeKeywordRelevance text keywords)"
  by (simp add: analyzeKeywordRelevance_filter isRelevant_def toLowerCase_empty
        str_includes_empty)

theorem C9_empty_keyword_witness:
  "[] \<in> set [''growth'', ''''] \<and>
   [] \<in> set (analyzeKeywordRelevance ''Steady revenue'' [''growth'', ''''])"
proof -
  have h: "[] \<in> set [''growth'', '''']" by simp
  show ?thesis by (rule conjI [OF h C9_empty_keyword [OF h]])
qed

text \<open>
  C10. For every text, every response time and every sentiment score from 0 to
  100, the performance score is at least the sentiment score: the three bonuses
  are not negative and the clamp cannot go below a score of at most 100.
\<close>

theorem C10_performance_ge_sentiment:
  "0 \<le> s \<Longrightarrow> s \<le> 100 \<Longrightarrow> s \<le> calculatePerformanceScore text s elapsed"
  by (simp add: calculatePerformanceScore_def Let_def js_round_of_int)

theorem C10_performance_ge_sentiment_witness:
  "(0::int) \<le> 75 \<and> (75::int) \<le> 100 \<and>
   75 \<le> calculatePerformanceScore ''analysis analysis analysis'' 75 6000"
proof -
  have a: "(0::int) \<le> 75" by simp
  have b: "(75::int) \<le> 100" by simp
  show ?thesis by (rule conjI [OF a conjI [OF b C10_performance_ge_sentiment [OF a b]]])
qed

end
